theory Spec2Isabelle
  imports Main "HOL-Library.AList" "HOL-Library.Word"
begin

section \<open>The sketch catalog of skizze (counters/manager.go)\<close>

text \<open>
  The catalog \<^verbatim>\<open>ManagerStruct\<close> keeps two Go maps: \<^verbatim>\<open>sketches\<close>, from the canonical id
  \<^verbatim>\<open>"{name}.{family}"\<close> to the live estimator, and \<^verbatim>\<open>info\<close>, from the same id to a pointer
  to the descriptor. Go maps are association lists here (keys distinct, the order of the
  list standing for whatever order \<^verbatim>\<open>range\<close> takes); pointers to descriptors are
  addresses into an explicit heap, since \<^verbatim>\<open>loadInfo\<close> stores the address of one variable
  under many keys. A panic is the outcome \<open>Panic\<close>, a returned Go \<^verbatim>\<open>error\<close> is an
  \<open>error option\<close> (\<open>None\<close> is \<^verbatim>\<open>nil\<close>).
\<close>

subsection \<open>Data\<close>

type_synonym bytes = string

text \<open>
  \<^verbatim>\<open>abstract.Info\<close>: the descriptor. \<^verbatim>\<open>Properties\<close> is a \<^verbatim>\<open>map[string]float64\<close>; the catalog
  never computes with the numbers, so their type is the parameter \<open>'f\<close>. A nil map and an
  empty map are both \<open>[]\<close>.
\<close>

record 'f Info =
  ID :: string
  Type :: string
  Properties :: "(string \<times> 'f) list"
  State :: "(string \<times> 64 word) list"

text \<open>The zero value of \<^verbatim>\<open>abstract.Info\<close>, as \<^verbatim>\<open>var infoStruct abstract.Info\<close> makes it.\<close>

definition zeroInfo :: "'f Info" where
  "zeroInfo = \<lparr>ID = [], Type = [], Properties = [], State = []\<rparr>"

text \<open>
  Modelled from the spec: the family tags \<^verbatim>\<open>abstract.HLLPP\<close>, \<^verbatim>\<open>abstract.CML\<close> and
  \<^verbatim>\<open>abstract.TopK\<close> are constants of the package \<^verbatim>\<open>counters/abstract\<close>, which is not among
  the sources; the spec gives their strings as "cardinality", "frequency" and "top-k".
\<close>

definition HLLPP :: string where "HLLPP = ''cardinality''"
definition CML :: string where "CML = ''frequency''"
definition TopK :: string where "TopK = ''top-k''"

text \<open>
  Modelled from the spec: an estimator (\<^verbatim>\<open>abstract.Counter\<close>) reports the identity of the
  descriptor it was built from (\<^verbatim>\<open>GetID\<close>, \<^verbatim>\<open>GetType\<close> are "identity accessors"); the
  wrappers that implement it are not among the sources. Its numerical state is the
  opaque \<open>impl\<close>.
\<close>

record 'i Counter =
  GetID :: string
  GetType :: string
  impl :: 'i

text \<open>
  The errors \<^verbatim>\<open>manager.go\<close> builds with \<^verbatim>\<open>errors.New\<close>, one constructor per message,
  carrying the values the message prints:
  \<^item> \<open>AlreadyExists id type\<close>: "Sketch %s of type %s already exists" (the spec's DuplicateId);
  \<^item> \<open>InvalidLength n max\<close>: "Invalid length of sketch ID: %d. Max length allowed: %d"
    (IdTooLong);
  \<^item> \<open>NoSketchType\<close>: "No sketch type was given!" (MissingFamily);
  \<^item> \<open>InvalidSketchType t\<close>: "Invalid sketch type: " + t (UnknownFamily);
  \<^item> \<open>CouldNotLoad info err\<close>: "Could not load sketch ", info, ". Err:", err
    (FamilyConstructionFailed);
  \<^item> \<open>NoSuchSketch name\<close>: "No such sketch " + name, and "No such sketch: " + name (NotFound);
  \<^item> \<open>NoSuchSketchOfType name type\<close>: "No such sketch %s of type %s found" (NotFound);
  \<^item> \<open>External msg\<close>: an error of the storage or of an estimator, passed on as it is.
\<close>

datatype 'f error =
    AlreadyExists string string
  | InvalidLength nat int
  | NoSketchType
  | InvalidSketchType string
  | CouldNotLoad "'f Info" string
  | NoSuchSketch string
  | NoSuchSketchOfType string string
  | External string

datatype 'a ret = Return 'a | Panic

text \<open>
  What the catalog calls and the sources do not contain: the configuration constant, the
  three estimator wrappers, the storage manager and \<^verbatim>\<open>encoding/json\<close>. They are parameters
  of every operation, so that a theorem holds for whatever they do (a failing store
  included). \<open>'st\<close> is the state of the storage, \<open>'b\<close> the stored form of a descriptor,
  \<open>'r\<close> what \<^verbatim>\<open>GetFrequency\<close> returns. An error of a collaborator is its message.
  \<^verbatim>\<open>Unmarshal data cur\<close> is the content of the target struct after decoding \<open>data\<close> into a
  struct that held \<open>cur\<close> (its error is dropped by the caller).
\<close>

record ('f, 'i, 'r, 'st, 'b) env =
  MaxKeySize :: int
  hllppNewSketch :: "'f Info \<Rightarrow> string + 'i"
  topkNewSketch :: "'f Info \<Rightarrow> string + 'i"
  cmlNewSketch :: "'f Info \<Rightarrow> string + 'i"
  hllppNewSketchFromData :: "'f Info \<Rightarrow> 'st \<Rightarrow> string + 'i"
  topkNewSketchFromData :: "'f Info \<Rightarrow> 'st \<Rightarrow> string + 'i"
  cmlNewSketchFromData :: "'f Info \<Rightarrow> 'st \<Rightarrow> string + 'i"
  AddMultiple :: "'i Counter \<Rightarrow> bytes list \<Rightarrow> 'st \<Rightarrow> 'i \<times> 'st"
  RemoveMultiple :: "'i Counter \<Rightarrow> bytes list \<Rightarrow> 'st \<Rightarrow> string option \<times> 'i \<times> 'st"
  GetFrequency :: "'i Counter \<Rightarrow> bytes list option \<Rightarrow> 'r"
  GetCount :: "'i Counter \<Rightarrow> nat"
  Marshal :: "'f Info \<Rightarrow> string + 'b"
  Unmarshal :: "'b \<Rightarrow> 'f Info \<Rightarrow> 'f Info"
  SaveInfo :: "string \<Rightarrow> 'b \<Rightarrow> 'st \<Rightarrow> string option \<times> 'st"
  LoadAllInfo :: "'st \<Rightarrow> string + (string \<times> 'b) list"
  DeleteInfo :: "string \<Rightarrow> 'st \<Rightarrow> string option \<times> 'st"
  DeleteData :: "string \<Rightarrow> 'st \<Rightarrow> string option \<times> 'st"
  LoadData :: "string \<Rightarrow> int \<Rightarrow> int \<Rightarrow> 'st \<Rightarrow> 'st"

text \<open>
  The state the operations run in: the two maps of \<^verbatim>\<open>ManagerStruct\<close>, the memory its
  descriptor pointers refer to (\<open>heap\<close>, with \<open>nextAddr\<close> the next address to allocate),
  the lines written to the logger, and the storage singleton. In \<open>sketches\<close> the value
  \<open>None\<close> is a nil \<^verbatim>\<open>abstract.Counter\<close>.
\<close>

record ('f, 'i, 'st) state =
  sketches :: "(string \<times> 'i Counter option) list"
  info :: "(string \<times> nat) list"
  heap :: "nat \<Rightarrow> 'f Info"
  nextAddr :: nat
  logged :: "string list"
  strg :: 'st

subsection \<open>Create\<close>

text \<open>
  \<^verbatim>\<open>dumpInfo(i)\<close>: binds \<^verbatim>\<open>m.info[i.ID] = i\<close>, serialises the descriptor (a failure panics,
  \<^verbatim>\<open>utils.PanicOnError\<close>) and calls \<^verbatim>\<open>SaveInfo\<close>, whose result it drops.
\<close>

definition dumpInfo ::
  "('f, 'i, 'r, 'st, 'b) env \<Rightarrow> ('f, 'i, 'st) state \<Rightarrow> nat \<Rightarrow> unit ret \<times> ('f, 'i, 'st) state" where
  "dumpInfo env s a =
     (let i = heap s a;
          s1 = s\<lparr>info := AList.update (ID i) a (info s)\<rparr>
      in case Marshal env i of
           Inl err \<Rightarrow> (Panic, s1)
         | Inr infoData \<Rightarrow>
             (Return (), s1\<lparr>strg := snd (SaveInfo env (ID i) infoData (strg s1))\<rparr>))"

text \<open>The \<^verbatim>\<open>switch sketchType\<close> of \<^verbatim>\<open>CreateSketch\<close>; \<open>None\<close> is its \<^verbatim>\<open>default\<close> branch.\<close>

definition newSketchFor ::
  "('f, 'i, 'r, 'st, 'b) env \<Rightarrow> string \<Rightarrow> 'f Info \<Rightarrow> (string + 'i) option" where
  "newSketchFor env sketchType i =
     (if sketchType = HLLPP then Some (hllppNewSketch env i)
      else if sketchType = TopK then Some (topkNewSketch env i)
      else if sketchType = CML then Some (cmlNewSketch env i)
      else None)"

definition CreateSketch ::
  "('f, 'i, 'r, 'st, 'b) env \<Rightarrow> ('f, 'i, 'st) state \<Rightarrow> string \<Rightarrow> string \<Rightarrow> (string \<times> 'f) list
     \<Rightarrow> 'f error option ret \<times> ('f, 'i, 'st) state" where
  "CreateSketch env s sketchID sketchType props =
     (let id = sketchID @ ''.'' @ sketchType in
      case map_of (info s) id of
        Some a \<Rightarrow> (Return (Some (AlreadyExists id (Type (heap s a)))), s)
      | None \<Rightarrow>
          if int (length id) > MaxKeySize env
          then (Return (Some (InvalidLength (length id) (MaxKeySize env))), s)
          else if sketchType = []
          then (Return (Some NoSketchType),
                s\<lparr>logged := logged s @ [''SketchType is mandatory and must be set!'']\<rparr>)
          else
            let a = nextAddr s;
                i = \<lparr>ID = id, Type = sketchType, Properties = props, State = []\<rparr>;
                s1 = s\<lparr>heap := (heap s)(a := i), nextAddr := Suc a\<rparr>
            in case newSketchFor env sketchType i of
                 None \<Rightarrow> (Return (Some (InvalidSketchType sketchType)), s1)
               | Some (Inl err) \<Rightarrow> (Return (Some (CouldNotLoad i err)), s1)
               | Some (Inr est) \<Rightarrow>
                   let sketch = \<lparr>GetID = ID i, GetType = Type i, impl = est\<rparr>;
                       s2 = s1\<lparr>sketches := AList.update (ID i) (Some sketch) (sketches s1)\<rparr>
                   in case dumpInfo env s2 a of
                        (Panic, s3) \<Rightarrow> (Panic, s3)
                      | (Return u, s3) \<Rightarrow> (Return None, s3))"

subsection \<open>Delete, list, add, remove, query\<close>

text \<open>
  \<^verbatim>\<open>DeleteSketch\<close>: the id is looked up in \<^verbatim>\<open>m.sketches\<close>, removed from both maps, then
  \<^verbatim>\<open>DeleteInfo\<close> runs and, only when it returned no error, \<^verbatim>\<open>DeleteData\<close>.
\<close>

definition DeleteSketch ::
  "('f, 'i, 'r, 'st, 'b) env \<Rightarrow> ('f, 'i, 'st) state \<Rightarrow> string \<Rightarrow> string
     \<Rightarrow> 'f error option ret \<times> ('f, 'i, 'st) state" where
  "DeleteSketch env s sketchID sketchType =
     (let id = sketchID @ ''.'' @ sketchType in
      case map_of (sketches s) id of
        None \<Rightarrow> (Return (Some (NoSuchSketch sketchID)), s)
      | Some v \<Rightarrow>
          let s1 = s\<lparr>sketches := AList.delete id (sketches s)\<rparr>;
              s2 = s1\<lparr>info := AList.delete id (info s1)\<rparr>;
              r1 = DeleteInfo env id (strg s2);
              s3 = s2\<lparr>strg := snd r1\<rparr>
          in case fst r1 of
               Some err \<Rightarrow> (Return (Some (External err)), s3)
             | None \<Rightarrow>
                 let r2 = DeleteData env id (strg s3)
                 in (Return (map_option External (fst r2)), s3\<lparr>strg := snd r2\<rparr>))"

text \<open>
  \<^verbatim>\<open>GetSketches\<close>: one string per entry of \<^verbatim>\<open>m.sketches\<close>, in the order of the iteration.
  A method call on a nil estimator panics, and so does the slice
  \<^verbatim>\<open>id[:len(id)-len(typ)-1]\<close> when its bound is negative.
\<close>

fun GetSketches_loop :: "(string \<times> 'i Counter option) list \<Rightarrow> string list \<Rightarrow> string list ret" where
  "GetSketches_loop [] acc = Return acc"
| "GetSketches_loop ((k, v) # rest) acc =
     (case v of
        None \<Rightarrow> Panic
      | Some c \<Rightarrow>
          let typ = GetType c; id = GetID c
          in if length id < length typ + 1 then Panic
             else GetSketches_loop rest
                    (acc @ [typ @ ''/'' @ take (length id - length typ - 1) id]))"

definition GetSketches :: "('f, 'i, 'st) state \<Rightarrow> (string list \<times> 'f error option) ret" where
  "GetSketches s =
     (case GetSketches_loop (sketches s) [] of
        Panic \<Rightarrow> Panic
      | Return l \<Rightarrow> Return (l, None))"

text \<open>
  \<^verbatim>\<open>AddToSketch\<close>: the type assertion \<^verbatim>\<open>val.(abstract.Counter)\<close> panics on a nil value. The
  values go to \<^verbatim>\<open>AddMultiple\<close> as byte strings; what it returns is dropped. The estimator
  is updated in place, which is an update of the entry here.
\<close>

definition AddToSketch ::
  "('f, 'i, 'r, 'st, 'b) env \<Rightarrow> ('f, 'i, 'st) state \<Rightarrow> string \<Rightarrow> string \<Rightarrow> string list
     \<Rightarrow> 'f error option ret \<times> ('f, 'i, 'st) state" where
  "AddToSketch env s sketchID sketchType values =
     (let id = sketchID @ ''.'' @ sketchType in
      case map_of (sketches s) id of
        None \<Rightarrow> (Return (Some (NoSuchSketchOfType sketchID sketchType)), s)
      | Some None \<Rightarrow> (Panic, s)
      | Some (Some counter) \<Rightarrow>
          let r = AddMultiple env counter values (strg s)
          in (Return None,
              s\<lparr>sketches := AList.update id (Some (counter\<lparr>impl := fst r\<rparr>)) (sketches s),
                strg := snd r\<rparr>))"

text \<open>
  \<^verbatim>\<open>DeleteFromSketch\<close>: the lookup key is \<^verbatim>\<open>sketchID\<close> itself; \<^verbatim>\<open>sketchType\<close> is not used.
  The error of \<^verbatim>\<open>RemoveMultiple\<close> is returned.
\<close>

definition DeleteFromSketch ::
  "('f, 'i, 'r, 'st, 'b) env \<Rightarrow> ('f, 'i, 'st) state \<Rightarrow> string \<Rightarrow> string \<Rightarrow> string list
     \<Rightarrow> 'f error option ret \<times> ('f, 'i, 'st) state" where
  "DeleteFromSketch env s sketchID sketchType values =
     (case map_of (sketches s) sketchID of
        None \<Rightarrow> (Return (Some (NoSuchSketch sketchID)), s)
      | Some None \<Rightarrow> (Panic, s)
      | Some (Some counter) \<Rightarrow>
          let r = RemoveMultiple env counter values (strg s)
          in (Return (map_option External (fst r)),
              s\<lparr>sketches := AList.update sketchID (Some (counter\<lparr>impl := fst (snd r)\<rparr>))
                               (sketches s),
                strg := snd (snd r)\<rparr>))"

text \<open>
  What \<^verbatim>\<open>GetCountForSketch\<close> returns as \<^verbatim>\<open>interface{}\<close>: the literal \<^verbatim>\<open>0\<close> beside an error,
  the count of \<^verbatim>\<open>GetCount\<close>, or whatever \<^verbatim>\<open>GetFrequency\<close> gave.
\<close>

datatype 'r qvalue = IntValue int | CountValue nat | FrequencyValue 'r

definition GetCountForSketch ::
  "('f, 'i, 'r, 'st, 'b) env \<Rightarrow> ('f, 'i, 'st) state \<Rightarrow> string \<Rightarrow> string \<Rightarrow> string list
     \<Rightarrow> ('r qvalue \<times> 'f error option) ret" where
  "GetCountForSketch env s sketchID sketchType values =
     (let id = sketchID @ ''.'' @ sketchType in
      case map_of (sketches s) id of
        None \<Rightarrow> Return (IntValue 0, Some (NoSuchSketchOfType sketchID sketchType))
      | Some None \<Rightarrow> Panic
      | Some (Some counter) \<Rightarrow>
          if GetType counter = CML
          then Return (FrequencyValue (GetFrequency env counter (Some values)), None)
          else if GetType counter = TopK
          then Return (FrequencyValue (GetFrequency env counter None), None)
          else Return (CountValue (GetCount env counter), None))"

subsection \<open>Startup: rehydration\<close>

text \<open>
  \<^verbatim>\<open>loadInfo\<close>: the variable \<^verbatim>\<open>infoStruct\<close> is declared once, before the loop, at the address
  \<open>a\<close>. Every round decodes the next stored descriptor into it and stores \<^verbatim>\<open>&infoStruct\<close>,
  the same address, under the id just decoded.
\<close>

fun loadInfo_loop ::
  "('f, 'i, 'r, 'st, 'b) env \<Rightarrow> nat \<Rightarrow> (string \<times> 'b) list \<Rightarrow> ('f, 'i, 'st) state
     \<Rightarrow> ('f, 'i, 'st) state" where
  "loadInfo_loop env a [] s = s"
| "loadInfo_loop env a ((k, infoData) # rest) s =
     (let s1 = s\<lparr>heap := (heap s)(a := Unmarshal env infoData (heap s a))\<rparr>;
          s2 = s1\<lparr>info := AList.update (ID (heap s1 a)) a (info s1)\<rparr>
      in loadInfo_loop env a rest s2)"

definition loadInfo ::
  "('f, 'i, 'r, 'st, 'b) env \<Rightarrow> ('f, 'i, 'st) state \<Rightarrow> 'f error option \<times> ('f, 'i, 'st) state" where
  "loadInfo env s =
     (let a = nextAddr s;
          s1 = s\<lparr>heap := (heap s)(a := zeroInfo), nextAddr := Suc a\<rparr>
      in case LoadAllInfo env (strg s1) of
           Inl err \<Rightarrow> (Some (External err), s1)
         | Inr infos \<Rightarrow> (None, loadInfo_loop env a infos s1))"

text \<open>
  \<^verbatim>\<open>loadSketches\<close>: for every entry of \<^verbatim>\<open>m.info\<close> the \<^verbatim>\<open>switch info.Type\<close> rebuilds the
  estimator; its \<^verbatim>\<open>default\<close> branch writes a log line and leaves \<^verbatim>\<open>sketch\<close> nil and \<^verbatim>\<open>err\<close>
  nil. After the switch, an error ends the loop; otherwise \<^verbatim>\<open>m.sketches[info.ID] = sketch\<close>
  and \<^verbatim>\<open>LoadData(key, 0, 0)\<close> run, for every branch.
\<close>

definition newSketchFromDataFor ::
  "('f, 'i, 'r, 'st, 'b) env \<Rightarrow> 'f Info \<Rightarrow> 'st \<Rightarrow> (string + 'i) option" where
  "newSketchFromDataFor env i st =
     (if Type i = HLLPP then Some (hllppNewSketchFromData env i st)
      else if Type i = TopK then Some (topkNewSketchFromData env i st)
      else if Type i = CML then Some (cmlNewSketchFromData env i st)
      else None)"

fun loadSketches_loop ::
  "('f, 'i, 'r, 'st, 'b) env \<Rightarrow> (string \<times> nat) list \<Rightarrow> ('f, 'i, 'st) state
     \<Rightarrow> 'f error option \<times> ('f, 'i, 'st) state" where
  "loadSketches_loop env [] s = (None, s)"
| "loadSketches_loop env ((key, a) # rest) s =
     (let i = heap s a in
      case newSketchFromDataFor env i (strg s) of
        Some (Inl err) \<Rightarrow> (Some (CouldNotLoad i err), s)
      | Some (Inr est) \<Rightarrow>
          let sketch = \<lparr>GetID = ID i, GetType = Type i, impl = est\<rparr>;
              s1 = s\<lparr>sketches := AList.update (ID i) (Some sketch) (sketches s)\<rparr>
          in loadSketches_loop env rest (s1\<lparr>strg := LoadData env key 0 0 (strg s1)\<rparr>)
      | None \<Rightarrow>
          let s0 = s\<lparr>logged := logged s @ [''Invalid counter type '' @ Type i]\<rparr>;
              s1 = s0\<lparr>sketches := AList.update (ID i) None (sketches s0)\<rparr>
          in loadSketches_loop env rest (s1\<lparr>strg := LoadData env key 0 0 (strg s1)\<rparr>))"

definition loadSketches ::
  "('f, 'i, 'r, 'st, 'b) env \<Rightarrow> ('f, 'i, 'st) state \<Rightarrow> 'f error option \<times> ('f, 'i, 'st) state" where
  "loadSketches env s = loadSketches_loop env (info s) s"

text \<open>
  \<^verbatim>\<open>newManager\<close>: two fresh maps, then \<^verbatim>\<open>loadInfo\<close> and \<^verbatim>\<open>loadSketches\<close>. With an error the
  Go function returns no manager; the maps of the state returned here are then unreachable.
\<close>

definition newManager ::
  "('f, 'i, 'r, 'st, 'b) env \<Rightarrow> ('f, 'i, 'st) state \<Rightarrow> 'f error option \<times> ('f, 'i, 'st) state" where
  "newManager env s =
     (case loadInfo env (s\<lparr>sketches := [], info := []\<rparr>) of
        (Some err, s1) \<Rightarrow> (Some err, s1)
      | (None, s1) \<Rightarrow> loadSketches env s1)"

text \<open>The state of a process that has just started, over the storage \<open>st\<close>.\<close>

definition boot :: "'st \<Rightarrow> ('f, 'i, 'st) state" where
  "boot st = \<lparr>sketches = [], info = [], heap = (\<lambda>a. zeroInfo), nextAddr = 0, logged = [],
              strg = st\<rparr>"

subsection \<open>Reference collaborators\<close>

text \<open>
  Modelled from the spec: the storage manager (package \<^verbatim>\<open>storage\<close>) and the estimator
  wrappers are not among the sources. To run the catalog on concrete inputs, this is one
  instance of them that follows the spec: an info store and a data store keyed by the
  canonical id (\<^verbatim>\<open>SaveInfo\<close> overwrites or creates, \<^verbatim>\<open>LoadAllInfo\<close> returns every entry, the
  deletes remove the key), and estimators that keep the values they were given, so that
  their answers are exact. With \<open>broken\<close> set, every write and delete of the store fails
  and changes nothing. A stored descriptor stands for its JSON text; decoding it sets
  the id and the type and merges the two maps into those of the target, as
  \<^verbatim>\<open>json.Unmarshal\<close> does with a map field that is already allocated.
\<close>

record store =
  infoDB :: "(string \<times> int Info) list"
  dataDB :: "(string \<times> bytes list) list"
  broken :: bool

definition refNewSketchFromData :: "int Info \<Rightarrow> store \<Rightarrow> string + bytes list" where
  "refNewSketchFromData i st =
     (case map_of (dataDB st) (ID i) of
        None \<Rightarrow> Inl ''no data''
      | Some vs \<Rightarrow> Inr vs)"

definition refAddMultiple :: "bytes list Counter \<Rightarrow> bytes list \<Rightarrow> store \<Rightarrow> bytes list \<times> store" where
  "refAddMultiple c vs st =
     (impl c @ vs,
      if broken st then st
      else st\<lparr>dataDB := AList.update (GetID c) (impl c @ vs) (dataDB st)\<rparr>)"

definition refRemoveMultiple ::
  "bytes list Counter \<Rightarrow> bytes list \<Rightarrow> store \<Rightarrow> string option \<times> bytes list \<times> store" where
  "refRemoveMultiple c vs st =
     (if GetType c = CML
      then (None, fold remove1 vs (impl c),
            if broken st then st
            else st\<lparr>dataDB := AList.update (GetID c) (fold remove1 vs (impl c)) (dataDB st)\<rparr>)
      else (Some ''unsupported'', impl c, st))"

definition refGetFrequency :: "bytes list Counter \<Rightarrow> bytes list option \<Rightarrow> (bytes \<times> nat) list" where
  "refGetFrequency c q =
     (case q of
        Some vs \<Rightarrow> map (\<lambda>v. (v, count_list (impl c) v)) vs
      | None \<Rightarrow> map (\<lambda>v. (v, count_list (impl c) v)) (remdups (impl c)))"

definition refUnmarshal :: "int Info \<Rightarrow> int Info \<Rightarrow> int Info" where
  "refUnmarshal d cur =
     \<lparr>ID = ID d, Type = Type d,
      Properties = AList.merge (Properties cur) (Properties d),
      State = AList.merge (State cur) (State d)\<rparr>"

definition refSaveInfo :: "string \<Rightarrow> int Info \<Rightarrow> store \<Rightarrow> string option \<times> store" where
  "refSaveInfo key d st =
     (if broken st then (Some ''write failed'', st)
      else (None, st\<lparr>infoDB := AList.update key d (infoDB st)\<rparr>))"

definition refDeleteInfo :: "string \<Rightarrow> store \<Rightarrow> string option \<times> store" where
  "refDeleteInfo key st =
     (if broken st then (Some ''delete failed'', st)
      else (None, st\<lparr>infoDB := AList.delete key (infoDB st)\<rparr>))"

definition refDeleteData :: "string \<Rightarrow> store \<Rightarrow> string option \<times> store" where
  "refDeleteData key st =
     (if broken st then (Some ''delete failed'', st)
      else (None, st\<lparr>dataDB := AList.delete key (dataDB st)\<rparr>))"

definition refEnv :: "(int, bytes list, (bytes \<times> nat) list, store, int Info) env" where
  "refEnv =
     \<lparr>MaxKeySize = 32768,
      hllppNewSketch = (\<lambda>i. Inr []),
      topkNewSketch = (\<lambda>i. Inr []),
      cmlNewSketch = (\<lambda>i. Inr []),
      hllppNewSketchFromData = refNewSketchFromData,
      topkNewSketchFromData = refNewSketchFromData,
      cmlNewSketchFromData = refNewSketchFromData,
      AddMultiple = refAddMultiple,
      RemoveMultiple = refRemoveMultiple,
      GetFrequency = refGetFrequency,
      GetCount = (\<lambda>c. length (remdups (impl c))),
      Marshal = Inr,
      Unmarshal = refUnmarshal,
      SaveInfo = refSaveInfo,
      LoadAllInfo = (\<lambda>st. Inr (infoDB st)),
      DeleteInfo = refDeleteInfo,
      DeleteData = refDeleteData,
      LoadData = (\<lambda>key off len st. st)\<rparr>"

definition emptyStore :: store where
  "emptyStore = \<lparr>infoDB = [], dataDB = [], broken = False\<rparr>"

definition brokenStore :: store where
  "brokenStore = emptyStore\<lparr>broken := True\<rparr>"

text \<open>A store that holds one descriptor whose family tag is none of the three.\<close>

definition bogusStore :: store where
  "bogusStore =
     \<lparr>infoDB = [(''x.bogus'', \<lparr>ID = ''x.bogus'', Type = ''bogus'', Properties = [], State = []\<rparr>)],
      dataDB = [], broken = False\<rparr>"

text \<open>The reference collaborators with a small bound on the length of an id.\<close>

definition smallEnv :: "(int, bytes list, (bytes \<times> nat) list, store, int Info) env" where
  "smallEnv = refEnv\<lparr>MaxKeySize := 20\<rparr>"

subsection \<open>Concrete states\<close>

text \<open>
  The scenarios of the spec over the reference collaborators, written out:
  \<open>marvelState\<close> is a fresh service after
  \<^verbatim>\<open>create("marvel", CARDINALITY, {capacity: 100000})\<close>, \<open>xforceState\<close> a fresh service after
  \<^verbatim>\<open>create("x-force", FREQUENCY, {capacity: 100000})\<close>, and \<open>heroesState\<close> a service with a
  sketch of each family, each with values in it.
\<close>

definition marvelInfo :: "int Info" where
  "marvelInfo = \<lparr>ID = ''marvel.cardinality'', Type = ''cardinality'',
                  Properties = [(''capacity'', 100000)], State = []\<rparr>"

definition xforceInfo :: "int Info" where
  "xforceInfo = \<lparr>ID = ''x-force.frequency'', Type = ''frequency'',
                  Properties = [(''capacity'', 100000)], State = []\<rparr>"

definition avengersInfo :: "int Info" where
  "avengersInfo = \<lparr>ID = ''avengers.top-k'', Type = ''top-k'', Properties = [], State = []\<rparr>"

definition marvelState :: "(int, bytes list, store) state" where
  "marvelState =
     \<lparr>sketches = [(''marvel.cardinality'',
                   Some \<lparr>GetID = ''marvel.cardinality'', GetType = ''cardinality'', impl = []\<rparr>)],
      info = [(''marvel.cardinality'', 0)],
      heap = (\<lambda>a. zeroInfo)(0 := marvelInfo),
      nextAddr = 1,
      logged = [],
      strg = \<lparr>infoDB = [(''marvel.cardinality'', marvelInfo)], dataDB = [], broken = False\<rparr>\<rparr>"

definition xforceState :: "(int, bytes list, store) state" where
  "xforceState =
     \<lparr>sketches = [(''x-force.frequency'',
                   Some \<lparr>GetID = ''x-force.frequency'', GetType = ''frequency'', impl = []\<rparr>)],
      info = [(''x-force.frequency'', 0)],
      heap = (\<lambda>a. zeroInfo)(0 := xforceInfo),
      nextAddr = 1,
      logged = [],
      strg = \<lparr>infoDB = [(''x-force.frequency'', xforceInfo)], dataDB = [], broken = False\<rparr>\<rparr>"

definition heroesStore :: store where
  "heroesStore =
     \<lparr>infoDB = [(''marvel.cardinality'', marvelInfo), (''x-force.frequency'', xforceInfo),
                (''avengers.top-k'', avengersInfo)],
      dataDB = [(''marvel.cardinality'', [''magneto'', ''wasp'', ''beast'']),
                (''x-force.frequency'', [''magneto'', ''wasp'', ''beast'', ''magneto'']),
                (''avengers.top-k'', [''wasp'', ''wasp'', ''beast''])],
      broken = False\<rparr>"

definition heroesState :: "(int, bytes list, store) state" where
  "heroesState =
     \<lparr>sketches =
        [(''marvel.cardinality'',
          Some \<lparr>GetID = ''marvel.cardinality'', GetType = ''cardinality'',
                impl = [''magneto'', ''wasp'', ''beast'']\<rparr>),
         (''x-force.frequency'',
          Some \<lparr>GetID = ''x-force.frequency'', GetType = ''frequency'',
                impl = [''magneto'', ''wasp'', ''beast'', ''magneto'']\<rparr>),
         (''avengers.top-k'',
          Some \<lparr>GetID = ''avengers.top-k'', GetType = ''top-k'',
                impl = [''wasp'', ''wasp'', ''beast'']\<rparr>)],
      info = [(''marvel.cardinality'', 0), (''x-force.frequency'', 1), (''avengers.top-k'', 2)],
      heap = (\<lambda>a. zeroInfo)(0 := marvelInfo, 1 := xforceInfo, 2 := avengersInfo),
      nextAddr = 3,
      logged = [],
      strg = heroesStore\<rparr>"

subsection \<open>Invariants of the catalog\<close>

text \<open>
  I2 of the spec: every id registered in \<^verbatim>\<open>m.info\<close> is at most \<^verbatim>\<open>MaxKeySize\<close> bytes long.
\<close>

definition idBound :: "('f, 'i, 'r, 'st, 'b) env \<Rightarrow> ('f, 'i, 'st) state \<Rightarrow> bool" where
  "idBound env s = list_all (\<lambda>(k, a). int (length k) \<le> MaxKeySize env) (info s)"

definition known_tag :: "string \<Rightarrow> bool" where
  "known_tag t = (t = HLLPP \<or> t = TopK \<or> t = CML)"

text \<open>
  The name of a sketch as \<^verbatim>\<open>GetSketches\<close> recovers it from the estimator: the id without
  its last \<^verbatim>\<open>len(typ)+1\<close> bytes.
\<close>

definition entry_name :: "'i Counter \<Rightarrow> string" where
  "entry_name c = take (length (GetID c) - length (GetType c) - 1) (GetID c)"

text \<open>
  An entry of \<^verbatim>\<open>m.sketches\<close> is well formed when it holds a live estimator (not nil) of a
  known family, registered under the estimator's own id, and that id is a name, a dot
  and the family tag. \<open>catalog_ok\<close>: the keys of \<^verbatim>\<open>m.sketches\<close> are distinct, as the keys of
  a Go map are, and every entry is well formed.
\<close>

fun entry_ok :: "string \<times> 'i Counter option \<Rightarrow> bool" where
  "entry_ok (k, None) = False"
| "entry_ok (k, Some c) =
     (GetID c = k \<and> known_tag (GetType c) \<and> k = entry_name c @ ''.'' @ GetType c)"

definition catalog_ok :: "('f, 'i, 'st) state \<Rightarrow> bool" where
  "catalog_ok s = (distinct (map fst (sketches s)) \<and> list_all entry_ok (sketches s))"

subsection \<open>Facts about create\<close>

lemma CreateSketch_duplicate:
  "map_of (info s) (sketchID @ ''.'' @ sketchType) = Some a \<Longrightarrow>
   CreateSketch env s sketchID sketchType props =
     (Return (Some (AlreadyExists (sketchID @ ''.'' @ sketchType) (Type (heap s a)))), s)"
  by (simp add: CreateSketch_def)

lemma CreateSketch_success:
  assumes "CreateSketch env s sketchID sketchType props = (Return None, s')"
  shows "\<exists>est data.
           map_of (info s) (sketchID @ ''.'' @ sketchType) = None
         \<and> newSketchFor env sketchType
               \<lparr>ID = sketchID @ ''.'' @ sketchType, Type = sketchType,
                Properties = props, State = []\<rparr> = Some (Inr est)
         \<and> Marshal env \<lparr>ID = sketchID @ ''.'' @ sketchType, Type = sketchType,
                Properties = props, State = []\<rparr> = Inr data
         \<and> s' = s\<lparr>heap := (heap s)(nextAddr s :=
                     \<lparr>ID = sketchID @ ''.'' @ sketchType, Type = sketchType,
                      Properties = props, State = []\<rparr>),
                  nextAddr := Suc (nextAddr s),
                  sketches := AList.update (sketchID @ ''.'' @ sketchType)
                     (Some \<lparr>GetID = sketchID @ ''.'' @ sketchType, GetType = sketchType,
                            impl = est\<rparr>) (sketches s),
                  info := AList.update (sketchID @ ''.'' @ sketchType) (nextAddr s) (info s),
                  strg := snd (SaveInfo env (sketchID @ ''.'' @ sketchType) data (strg s))\<rparr>"
  using assms
  by (auto simp: CreateSketch_def dumpInfo_def Let_def
           split: option.splits if_splits sum.splits prod.splits ret.splits)

subsection \<open>The concrete states are runs of the catalog\<close>

lemma run_marvel:
  "CreateSketch refEnv (boot emptyStore) ''marvel'' HLLPP [(''capacity'', 100000)] =
     (Return None, marvelState)"
  by (simp add: CreateSketch_def dumpInfo_def newSketchFor_def refEnv_def boot_def emptyStore_def
        HLLPP_def refSaveInfo_def marvelState_def marvelInfo_def Let_def)

lemma run_xforce:
  "CreateSketch refEnv (boot emptyStore) ''x-force'' CML [(''capacity'', 100000)] =
     (Return None, xforceState)"
  by (simp add: CreateSketch_def dumpInfo_def newSketchFor_def refEnv_def boot_def emptyStore_def
        HLLPP_def CML_def TopK_def refSaveInfo_def xforceState_def xforceInfo_def Let_def)

subsection \<open>C1: a duplicate create is rejected\<close>

text \<open>
  Claim C1. When \<^verbatim>\<open>create(name, family, ...)\<close> has succeeded, a second create with the same
  name and family (whatever its properties) returns the error "already exists"
  (DuplicateId) and leaves the whole state as it was: the estimator of the first sketch
  is still registered in \<^verbatim>\<open>m.sketches\<close>, and \<^verbatim>\<open>m.info\<close> still points to the descriptor the
  first create built.
\<close>

theorem create_duplicate_rejected:
  assumes "CreateSketch env s name family props = (Return None, s1)"
  shows "CreateSketch env s1 name family props' =
           (Return (Some (AlreadyExists (name @ ''.'' @ family) family)), s1)
       \<and> (\<exists>est. map_of (sketches s1) (name @ ''.'' @ family) =
                  Some (Some \<lparr>GetID = name @ ''.'' @ family, GetType = family, impl = est\<rparr>))
       \<and> (\<exists>a. map_of (info s1) (name @ ''.'' @ family) = Some a
              \<and> heap s1 a = \<lparr>ID = name @ ''.'' @ family, Type = family,
                             Properties = props, State = []\<rparr>)"
proof -
  let ?id = "name @ ''.'' @ family"
  from CreateSketch_success[OF assms] obtain est data where
    s1: "s1 = s\<lparr>heap := (heap s)(nextAddr s :=
                     \<lparr>ID = ?id, Type = family, Properties = props, State = []\<rparr>),
                  nextAddr := Suc (nextAddr s),
                  sketches := AList.update ?id
                     (Some \<lparr>GetID = ?id, GetType = family, impl = est\<rparr>) (sketches s),
                  info := AList.update ?id (nextAddr s) (info s),
                  strg := snd (SaveInfo env ?id data (strg s))\<rparr>"
    by blast
  have i: "map_of (info s1) ?id = Some (nextAddr s)"
    by (simp add: s1 update_conv')
  have h: "heap s1 (nextAddr s) = \<lparr>ID = ?id, Type = family, Properties = props, State = []\<rparr>"
    by (simp add: s1)
  have k: "map_of (sketches s1) ?id = Some (Some \<lparr>GetID = ?id, GetType = family, impl = est\<rparr>)"
    by (simp add: s1 update_conv')
  from CreateSketch_duplicate[OF i, of env props'] h have
    "CreateSketch env s1 name family props' = (Return (Some (AlreadyExists ?id family)), s1)"
    by simp
  with i h k show ?thesis by blast
qed

text \<open>The scenario "duplicate rejection" of the spec, on a fresh service.\<close>

theorem create_duplicate_rejected_witness:
  "CreateSketch refEnv (boot emptyStore) ''marvel'' HLLPP [(''capacity'', 100000)] =
     (Return None, marvelState)
 \<and> CreateSketch refEnv marvelState ''marvel'' HLLPP [] =
     (Return (Some (AlreadyExists ''marvel.cardinality'' ''cardinality'')), marvelState)"
  using create_duplicate_rejected[OF run_marvel, of "[]"] run_marvel
  by (simp add: HLLPP_def)

subsection \<open>C9: an id longer than MaxKeySize\<close>

lemma map_of_None_idBound:
  assumes "idBound env s" "int (length k) > MaxKeySize env"
  shows "map_of (info s) k = None"
proof (cases "map_of (info s) k")
  case None then show ?thesis .
next
  case (Some a)
  then have "(k, a) \<in> set (info s)" by (rule map_of_SomeD)
  with assms(1) have "int (length k) \<le> MaxKeySize env"
    by (auto simp: idBound_def list_all_iff)
  with assms(2) show ?thesis by simp
qed

text \<open>
  Claim C9. In a catalog whose registered ids respect the bound (I2), a create whose
  canonical id is longer than \<^verbatim>\<open>MaxKeySize\<close> bytes returns the error "invalid length"
  (IdTooLong), and the state, the two in-memory maps and the info store in it, is
  unchanged.
\<close>

theorem create_id_too_long:
  assumes "idBound env s" "int (length (name @ ''.'' @ family)) > MaxKeySize env"
  shows "CreateSketch env s name family props =
           (Return (Some (InvalidLength (length (name @ ''.'' @ family)) (MaxKeySize env))), s)"
  using map_of_None_idBound[OF assms] assms(2)
  by (simp add: CreateSketch_def)

text \<open>With a bound of 20 bytes, the 26 bytes of "fantastic-four.cardinality" are refused.\<close>

theorem create_id_too_long_witness:
  "idBound smallEnv marvelState
 \<and> int (length (''fantastic-four'' @ ''.'' @ HLLPP)) > MaxKeySize smallEnv
 \<and> CreateSketch smallEnv marvelState ''fantastic-four'' HLLPP [] =
      (Return (Some (InvalidLength 26 20)), marvelState)"
proof -
  have b: "idBound smallEnv marvelState"
    by (simp add: idBound_def smallEnv_def refEnv_def marvelState_def)
  have l: "int (length (''fantastic-four'' @ ''.'' @ HLLPP)) > MaxKeySize smallEnv"
    by (simp add: smallEnv_def refEnv_def HLLPP_def)
  from create_id_too_long[OF b l, of "[]"] b l show ?thesis
    by (simp add: smallEnv_def refEnv_def HLLPP_def)
qed

subsection \<open>C6: delete removes the sketch from memory first\<close>

text \<open>
  Claim C6. For a registered canonical id, \<^verbatim>\<open>delete\<close> removes the id from \<^verbatim>\<open>m.sketches\<close> and
  from \<^verbatim>\<open>m.info\<close>, then calls \<^verbatim>\<open>DeleteInfo\<close> on the storage, then \<^verbatim>\<open>DeleteData\<close> on what
  \<^verbatim>\<open>DeleteInfo\<close> left (when \<^verbatim>\<open>DeleteInfo\<close> returned an error, that error is returned at
  once). Whatever the two store calls return, the id is bound in neither map afterwards.
\<close>

theorem delete_unreachable:
  assumes "map_of (sketches s) (name @ ''.'' @ family) = Some v"
      and "DeleteSketch env s name family = (r, s')"
  shows "map_of (sketches s') (name @ ''.'' @ family) = None
       \<and> map_of (info s') (name @ ''.'' @ family) = None
       \<and> sketches s' = AList.delete (name @ ''.'' @ family) (sketches s)
       \<and> info s' = AList.delete (name @ ''.'' @ family) (info s)
       \<and> (case fst (DeleteInfo env (name @ ''.'' @ family) (strg s)) of
            Some e \<Rightarrow> r = Return (Some (External e))
                    \<and> strg s' = snd (DeleteInfo env (name @ ''.'' @ family) (strg s))
          | None \<Rightarrow>
              r = Return (map_option External
                    (fst (DeleteData env (name @ ''.'' @ family)
                            (snd (DeleteInfo env (name @ ''.'' @ family) (strg s))))))
            \<and> strg s' = snd (DeleteData env (name @ ''.'' @ family)
                            (snd (DeleteInfo env (name @ ''.'' @ family) (strg s)))))"
  using assms
  by (auto simp: DeleteSketch_def Let_def delete_conv' split: option.splits)

text \<open>Over a store whose deletes fail, the sketch is gone from memory all the same.\<close>

theorem delete_unreachable_witness:
  "map_of (sketches (marvelState\<lparr>strg := brokenStore\<rparr>)) (''marvel'' @ ''.'' @ HLLPP) =
     Some (Some \<lparr>GetID = ''marvel.cardinality'', GetType = ''cardinality'', impl = []\<rparr>)
 \<and> fst (DeleteSketch refEnv (marvelState\<lparr>strg := brokenStore\<rparr>) ''marvel'' HLLPP) =
     Return (Some (External ''delete failed''))
 \<and> sketches (snd (DeleteSketch refEnv (marvelState\<lparr>strg := brokenStore\<rparr>) ''marvel'' HLLPP)) = []
 \<and> info (snd (DeleteSketch refEnv (marvelState\<lparr>strg := brokenStore\<rparr>) ''marvel'' HLLPP)) = []"
proof -
  have h: "map_of (sketches (marvelState\<lparr>strg := brokenStore\<rparr>)) (''marvel'' @ ''.'' @ HLLPP) =
     Some (Some \<lparr>GetID = ''marvel.cardinality'', GetType = ''cardinality'', impl = []\<rparr>)"
    by (simp add: marvelState_def HLLPP_def)
  from delete_unreachable[OF h surjective_pairing, of refEnv] h show ?thesis
    by (simp add: marvelState_def HLLPP_def refEnv_def refDeleteInfo_def brokenStore_def
          emptyStore_def)
qed

subsection \<open>C7: query dispatches on the family\<close>

text \<open>
  Claim C7. \<^verbatim>\<open>query(name, family, values)\<close> on an id bound to an estimator returns the
  estimator's count when the estimator's family is CARDINALITY, what \<^verbatim>\<open>GetFrequency\<close>
  gives for the values when it is FREQUENCY, and what \<^verbatim>\<open>GetFrequency(nil)\<close> gives when it is
  TOP_K (the values are not passed); on an id that is not registered it returns the
  error "no such sketch" (NotFound).
\<close>

theorem query_dispatch:
  "(map_of (sketches s) (name @ ''.'' @ family) = None \<longrightarrow>
      GetCountForSketch env s name family values =
        Return (IntValue 0, Some (NoSuchSketchOfType name family)))
 \<and> (\<forall>c. map_of (sketches s) (name @ ''.'' @ family) = Some (Some c) \<longrightarrow>
      (GetType c = HLLPP \<longrightarrow>
         GetCountForSketch env s name family values = Return (CountValue (GetCount env c), None))
    \<and> (GetType c = CML \<longrightarrow>
         GetCountForSketch env s name family values =
           Return (FrequencyValue (GetFrequency env c (Some values)), None))
    \<and> (GetType c = TopK \<longrightarrow>
         GetCountForSketch env s name family values =
           Return (FrequencyValue (GetFrequency env c None), None)))"
  by (simp add: GetCountForSketch_def HLLPP_def CML_def TopK_def)

text \<open>One query per family, and one for a sketch that does not exist.\<close>

theorem query_dispatch_witness:
  "GetCountForSketch refEnv heroesState ''marvel'' HLLPP [] = Return (CountValue 3, None)
 \<and> GetCountForSketch refEnv heroesState ''x-force'' CML [''magneto''] =
     Return (FrequencyValue [(''magneto'', 2)], None)
 \<and> GetCountForSketch refEnv heroesState ''avengers'' TopK [''magneto''] =
     Return (FrequencyValue [(''wasp'', 2), (''beast'', 1)], None)
 \<and> GetCountForSketch refEnv heroesState ''hulk'' HLLPP [] =
     Return (IntValue 0, Some (NoSuchSketchOfType ''hulk'' ''cardinality''))"
proof -
  have 1: "GetCountForSketch refEnv heroesState ''marvel'' HLLPP [] = Return (CountValue 3, None)"
    using query_dispatch[of heroesState "''marvel''" HLLPP refEnv "[]"]
    by (simp add: heroesState_def HLLPP_def CML_def TopK_def refEnv_def)
  have 2: "GetCountForSketch refEnv heroesState ''x-force'' CML [''magneto''] =
     Return (FrequencyValue [(''magneto'', 2)], None)"
    using query_dispatch[of heroesState "''x-force''" CML refEnv "[''magneto'']"]
    by (simp add: heroesState_def HLLPP_def CML_def TopK_def refEnv_def refGetFrequency_def)
  have 3: "GetCountForSketch refEnv heroesState ''avengers'' TopK [''magneto''] =
     Return (FrequencyValue [(''wasp'', 2), (''beast'', 1)], None)"
    using query_dispatch[of heroesState "''avengers''" TopK refEnv "[''magneto'']"]
    by (simp add: heroesState_def HLLPP_def CML_def TopK_def refEnv_def refGetFrequency_def)
  have 4: "GetCountForSketch refEnv heroesState ''hulk'' HLLPP [] =
     Return (IntValue 0, Some (NoSuchSketchOfType ''hulk'' ''cardinality''))"
    using query_dispatch[of heroesState "''hulk''" HLLPP refEnv "[]"]
    by (simp add: heroesState_def HLLPP_def)
  from 1 2 3 4 show ?thesis by blast
qed

subsection \<open>Association lists, names and tags\<close>

lemma set_update_subset: "set (AList.update k v al) \<subseteq> insert (k, v) (set al)"
  by (induction al) auto

lemma list_all_update:
  "P (k, v) \<Longrightarrow> list_all P al \<Longrightarrow> list_all P (AList.update k v al)"
  using set_update_subset[of k v al] by (auto simp: list_all_iff)

lemma list_all_delete: "list_all P al \<Longrightarrow> list_all P (AList.delete k al)"
  by (auto simp: list_all_iff AList.delete_eq)







subsection \<open>The operations keep the invariants\<close>

text \<open>
  A fresh service is well formed, and create, delete and add keep the catalog well formed
  and its ids within the bound.
\<close>

lemma catalog_ok_boot: "catalog_ok (boot st)"
  by (simp add: catalog_ok_def boot_def)

lemma newSketchFor_known: "newSketchFor env t i = Some r \<Longrightarrow> known_tag t"
  by (auto simp: newSketchFor_def known_tag_def split: if_splits)

lemma CreateSketch_sketches:
  assumes "CreateSketch env s name family props = (r, s')"
  shows "sketches s' = sketches s
       \<or> (known_tag family \<and>
          (\<exists>est. sketches s' =
             AList.update (name @ ''.'' @ family)
               (Some \<lparr>GetID = name @ ''.'' @ family, GetType = family, impl = est\<rparr>)
               (sketches s)))"
  using assms
  by (auto simp: CreateSketch_def dumpInfo_def Let_def dest: newSketchFor_known
           split: option.splits if_splits sum.splits prod.splits ret.splits)

lemma CreateSketch_catalog_ok:
  assumes "catalog_ok s" "CreateSketch env s name family props = (r, s')"
  shows "catalog_ok s'"
proof -
  from CreateSketch_sketches[OF assms(2)] show ?thesis
  proof
    assume "sketches s' = sketches s"
    with assms(1) show ?thesis by (simp add: catalog_ok_def)
  next
    assume "known_tag family \<and>
          (\<exists>est. sketches s' =
             AList.update (name @ ''.'' @ family)
               (Some \<lparr>GetID = name @ ''.'' @ family, GetType = family, impl = est\<rparr>)
               (sketches s))"
    then obtain est where tag: "known_tag family"
      and sk: "sketches s' = AList.update (name @ ''.'' @ family)
               (Some \<lparr>GetID = name @ ''.'' @ family, GetType = family, impl = est\<rparr>)
               (sketches s)"
      by blast
    have e: "entry_ok (name @ ''.'' @ family,
               Some \<lparr>GetID = name @ ''.'' @ family, GetType = family, impl = est\<rparr>)"
      using tag by (simp add: entry_name_def)
    from assms(1) have "distinct (map fst (sketches s'))"
      unfolding sk catalog_ok_def by (simp add: distinct_update)
    moreover from assms(1) have "list_all entry_ok (sketches s)"
      by (simp add: catalog_ok_def)
    then have "list_all entry_ok (sketches s')"
      unfolding sk by (rule list_all_update[where P = entry_ok, OF e])
    ultimately show ?thesis by (simp add: catalog_ok_def)
  qed
qed

lemma CreateSketch_registers:
  assumes "CreateSketch env s name family props = (Return None, s')"
  shows "known_tag family \<and> map_of (sketches s') (name @ ''.'' @ family) \<noteq> None"
proof -
  from CreateSketch_success[OF assms] obtain est data where
    n: "newSketchFor env family
               \<lparr>ID = name @ ''.'' @ family, Type = family,
                Properties = props, State = []\<rparr> = Some (Inr est)"
    and s': "s' = s\<lparr>heap := (heap s)(nextAddr s :=
                     \<lparr>ID = name @ ''.'' @ family, Type = family,
                      Properties = props, State = []\<rparr>),
                  nextAddr := Suc (nextAddr s),
                  sketches := AList.update (name @ ''.'' @ family)
                     (Some \<lparr>GetID = name @ ''.'' @ family, GetType = family,
                            impl = est\<rparr>) (sketches s),
                  info := AList.update (name @ ''.'' @ family) (nextAddr s) (info s),
                  strg := snd (SaveInfo env (name @ ''.'' @ family) data (strg s))\<rparr>"
    by blast
  from newSketchFor_known[OF n] show ?thesis by (simp add: s' update_conv')
qed

lemma DeleteSketch_catalog_ok:
  assumes "catalog_ok s" "DeleteSketch env s name family = (r, s')"
  shows "catalog_ok s'"
proof -
  from assms(2) have "sketches s' = sketches s
     \<or> sketches s' = AList.delete (name @ ''.'' @ family) (sketches s)"
    by (auto simp: DeleteSketch_def Let_def split: option.splits)
  with assms(1) show ?thesis
    by (auto simp: catalog_ok_def distinct_delete list_all_delete)
qed

lemma entry_ok_impl:
  assumes "entry_ok (k, Some c)"
  shows "entry_ok (k, Some (c\<lparr>impl := x\<rparr>))"
proof -
  have 1: "GetID (c\<lparr>impl := x\<rparr>) = GetID c" by simp
  have 2: "GetType (c\<lparr>impl := x\<rparr>) = GetType c" by simp
  have 3: "entry_name (c\<lparr>impl := x\<rparr>) = entry_name c" by (simp add: entry_name_def)
  from assms show ?thesis unfolding entry_ok.simps 1 2 3 .
qed

lemma catalog_ok_entry:
  assumes "catalog_ok s" "map_of (sketches s) k = Some v"
  shows "entry_ok (k, v)"
proof -
  from assms(2) have "(k, v) \<in> set (sketches s)" by (rule map_of_SomeD)
  with assms(1) show ?thesis by (auto simp: catalog_ok_def list_all_iff)
qed

lemma AddToSketch_catalog_ok:
  assumes "catalog_ok s" "AddToSketch env s name family values = (r, s')"
  shows "catalog_ok s'"
proof (cases "map_of (sketches s) (name @ ''.'' @ family)")
  case None
  with assms show ?thesis by (simp add: AddToSketch_def)
next
  case (Some v)
  from catalog_ok_entry[OF assms(1) Some] obtain c where v: "v = Some c"
    and e: "entry_ok (name @ ''.'' @ family, Some c)"
    by (cases v) auto
  from assms(2) Some v have sk: "sketches s' = AList.update (name @ ''.'' @ family)
      (Some (c\<lparr>impl := fst (AddMultiple env c values (strg s))\<rparr>)) (sketches s)"
    by (auto simp: AddToSketch_def Let_def)
  from assms(1) have "distinct (map fst (sketches s'))"
    unfolding sk catalog_ok_def by (simp add: distinct_update)
  moreover from assms(1) have "list_all entry_ok (sketches s)"
    by (simp add: catalog_ok_def)
  then have "list_all entry_ok (sketches s')"
    unfolding sk by (rule list_all_update[where P = entry_ok, OF entry_ok_impl[OF e]])
  ultimately show ?thesis by (simp add: catalog_ok_def)
qed

lemma idBound_boot: "idBound env (boot st)"
  by (simp add: idBound_def boot_def)

lemma CreateSketch_idBound:
  assumes "idBound env s" "CreateSketch env s name family props = (r, s')"
  shows "idBound env s'"
proof -
  from assms(2) have "info s' = info s
     \<or> (int (length (name @ ''.'' @ family)) \<le> MaxKeySize env
        \<and> info s' = AList.update (name @ ''.'' @ family) (nextAddr s) (info s))"
    by (auto simp: CreateSketch_def dumpInfo_def Let_def
             split: option.splits if_splits sum.splits prod.splits ret.splits)
  then show ?thesis
  proof
    assume "info s' = info s"
    with assms(1) show ?thesis by (simp add: idBound_def)
  next
    assume a: "int (length (name @ ''.'' @ family)) \<le> MaxKeySize env
        \<and> info s' = AList.update (name @ ''.'' @ family) (nextAddr s) (info s)"
    then have b: "(\<lambda>(k, a). int (length k) \<le> MaxKeySize env) (name @ ''.'' @ family, nextAddr s)"
      by simp
    from assms(1) have "list_all (\<lambda>(k, a). int (length k) \<le> MaxKeySize env) (info s)"
      by (simp add: idBound_def)
    from list_all_update[OF b this] a show ?thesis by (simp add: idBound_def)
  qed
qed

lemma DeleteSketch_idBound:
  assumes "idBound env s" "DeleteSketch env s name family = (r, s')"
  shows "idBound env s'"
proof -
  from assms(2) have "info s' = info s
     \<or> info s' = AList.delete (name @ ''.'' @ family) (info s)"
    by (auto simp: DeleteSketch_def Let_def split: option.splits)
  with assms(1) show ?thesis
    by (auto simp: idBound_def list_all_delete)
qed

subsection \<open>C8: one entry of list() per sketch\<close>




subsection \<open>C2: what rehydration binds in the info map\<close>

text \<open>
  Every binding that \<^verbatim>\<open>loadInfo\<close> makes holds the address of the one variable
  \<^verbatim>\<open>infoStruct\<close>: whatever the store returns and in whatever order, all ids of the info map
  share one descriptor afterwards, the last one decoded.
\<close>

lemma loadInfo_loop_addr:
  "\<forall>x \<in> snd ` set (info s). x = a \<Longrightarrow>
   \<forall>x \<in> snd ` set (info (loadInfo_loop env a infos s)). x = a"
proof (induction infos arbitrary: s)
  case Nil
  then show ?case by simp
next
  case (Cons d infos)
  obtain k infoData where d: "d = (k, infoData)" by (cases d)
  let ?s1 = "s\<lparr>heap := (heap s)(a := Unmarshal env infoData (heap s a))\<rparr>"
  let ?s2 = "?s1\<lparr>info := AList.update (ID (heap ?s1 a)) a (info ?s1)\<rparr>"
  from Cons.prems set_update_subset[of "ID (heap ?s1 a)" a "info s"]
  have "\<forall>x \<in> snd ` set (info ?s2). x = a" by auto
  from Cons.IH[OF this] show ?case by (simp add: d Let_def)
qed

lemma loadInfo_all_alias:
  assumes "loadInfo env s = (None, s')" and "info s = []"
      and "map_of (info s') k1 = Some a1" and "map_of (info s') k2 = Some a2"
  shows "a1 = nextAddr s \<and> a2 = nextAddr s"
proof -
  let ?s1 = "s\<lparr>heap := (heap s)(nextAddr s := zeroInfo), nextAddr := Suc (nextAddr s)\<rparr>"
  from assms(1) obtain infos where s': "s' = loadInfo_loop env (nextAddr s) infos ?s1"
    by (auto simp: loadInfo_def Let_def split: sum.splits)
  from assms(2) have "\<forall>x \<in> snd ` set (info ?s1). x = nextAddr s" by simp
  from loadInfo_loop_addr[OF this, of env infos]
  have all: "\<forall>x \<in> snd ` set (info s'). x = nextAddr s" by (simp add: s')
  from assms(3) have "(k1, a1) \<in> set (info s')" by (rule map_of_SomeD)
  moreover from assms(4) have "(k2, a2) \<in> set (info s')" by (rule map_of_SomeD)
  ultimately show ?thesis using all by force
qed

text \<open>
  Claim C2 says that after rehydration every id returned by \<^verbatim>\<open>LoadAllInfo\<close> is bound to the
  descriptor decoded from the bytes stored under that id. The code does not do that: over
  a store with the three descriptors of \<open>heroesStore\<close>, the three ids are bound to the same
  address, and the descriptor there is the one of "avengers.top-k" (with the capacity that
  the earlier rounds left in the reused map), while the bytes stored under
  "marvel.cardinality" decode to \<open>marvelInfo\<close>.
\<close>

theorem rehydration_aliases_descriptors:
  "LoadAllInfo refEnv heroesStore =
     Inr [(''marvel.cardinality'', marvelInfo), (''x-force.frequency'', xforceInfo),
          (''avengers.top-k'', avengersInfo)]
 \<and> fst (loadInfo refEnv (boot heroesStore)) = None
 \<and> info (snd (loadInfo refEnv (boot heroesStore))) =
     [(''marvel.cardinality'', 0), (''x-force.frequency'', 0), (''avengers.top-k'', 0)]
 \<and> heap (snd (loadInfo refEnv (boot heroesStore))) 0 =
     \<lparr>ID = ''avengers.top-k'', Type = ''top-k'', Properties = [(''capacity'', 100000)],
      State = []\<rparr>
 \<and> Unmarshal refEnv marvelInfo zeroInfo = marvelInfo"
  by (simp add: loadInfo_def boot_def refEnv_def heroesStore_def refUnmarshal_def marvelInfo_def
        xforceInfo_def avengersInfo_def zeroInfo_def Let_def AList.merge_def)

subsection \<open>C3: a descriptor with an unknown family tag\<close>

text \<open>
  Claim C3 says that the id of a persisted descriptor with an unknown family tag is never
  added to \<^verbatim>\<open>m.sketches\<close>. The code does add it: the \<^verbatim>\<open>default\<close> branch of \<^verbatim>\<open>loadSketches\<close>
  writes its log line and then runs on to \<^verbatim>\<open>m.sketches[info.ID] = sketch\<close> with a nil
  \<^verbatim>\<open>sketch\<close>. Over a store that holds the descriptor "x.bogus" of type "bogus", startup
  returns no error, "x.bogus" is a key of \<^verbatim>\<open>m.sketches\<close> with a nil estimator, and the next
  \<^verbatim>\<open>list()\<close> panics.
\<close>

theorem rehydration_registers_unknown_tag:
  "\<not> known_tag (Type (snd (hd (infoDB bogusStore))))
 \<and> fst (newManager refEnv (boot bogusStore)) = None
 \<and> sketches (snd (newManager refEnv (boot bogusStore))) = [(''x.bogus'', None)]
 \<and> logged (snd (newManager refEnv (boot bogusStore))) = [''Invalid counter type bogus'']
 \<and> GetSketches (snd (newManager refEnv (boot bogusStore))) = Panic"
  by (simp add: newManager_def loadInfo_def loadSketches_def newSketchFromDataFor_def boot_def
        refEnv_def bogusStore_def refUnmarshal_def zeroInfo_def Let_def AList.merge_def
        known_tag_def HLLPP_def CML_def TopK_def GetSketches_def)

subsection \<open>C4: remove looks the sketch up by its bare name\<close>

text \<open>\<^verbatim>\<open>DeleteFromSketch\<close> never reads its \<^verbatim>\<open>sketchType\<close> argument.\<close>

lemma DeleteFromSketch_ignores_type:
  "DeleteFromSketch env s name family values = DeleteFromSketch env s name family' values"
  by (simp add: DeleteFromSketch_def)

text \<open>
  Claim C4 says that \<^verbatim>\<open>remove(name, family, values)\<close> reaches the estimator whenever
  \<^verbatim>\<open>"{name}.{family}"\<close> is registered, and returns NotFound only when it is not. The code
  looks up \<^verbatim>\<open>m.sketches[sketchID]\<close>, the bare name: on a service that holds the sketch
  "x-force.frequency", \<^verbatim>\<open>remove("x-force", FREQUENCY, ["magneto"])\<close> returns "No such
  sketch: x-force" and changes nothing; only the canonical id passed as the name reaches
  the estimator.
\<close>

theorem remove_looks_up_bare_name:
  "map_of (sketches xforceState) (''x-force'' @ ''.'' @ CML) =
     Some (Some \<lparr>GetID = ''x-force.frequency'', GetType = ''frequency'', impl = []\<rparr>)
 \<and> DeleteFromSketch refEnv xforceState ''x-force'' CML [''magneto''] =
     (Return (Some (NoSuchSketch ''x-force'')), xforceState)
 \<and> fst (DeleteFromSketch refEnv xforceState ''x-force.frequency'' CML [''magneto'']) =
     Return None"
  by (simp add: DeleteFromSketch_def xforceState_def CML_def refEnv_def refRemoveMultiple_def)

subsection \<open>C5: create persists last and does not roll back\<close>

text \<open>
  Claim C5 says that when persisting the descriptor fails, create rolls the in-memory
  entry back and returns the error. On a store whose writes fail, \<^verbatim>\<open>SaveInfo\<close> returns an
  error, yet create returns no error and the id stays bound in \<^verbatim>\<open>m.sketches\<close> and in
  \<^verbatim>\<open>m.info\<close>, with no descriptor in the info store.
\<close>

theorem create_no_rollback_counterexample:
  "fst (SaveInfo refEnv ''marvel.cardinality''
          \<lparr>ID = ''marvel.cardinality'', Type = ''cardinality'', Properties = [], State = []\<rparr>
          brokenStore) = Some ''write failed''
 \<and> fst (CreateSketch refEnv (boot brokenStore) ''marvel'' HLLPP []) = Return None
 \<and> map_of (sketches (snd (CreateSketch refEnv (boot brokenStore) ''marvel'' HLLPP [])))
      ''marvel.cardinality'' =
     Some (Some \<lparr>GetID = ''marvel.cardinality'', GetType = ''cardinality'', impl = []\<rparr>)
 \<and> map_of (info (snd (CreateSketch refEnv (boot brokenStore) ''marvel'' HLLPP [])))
      ''marvel.cardinality'' = Some 0
 \<and> infoDB (strg (snd (CreateSketch refEnv (boot brokenStore) ''marvel'' HLLPP []))) = []"
  by (simp add: CreateSketch_def dumpInfo_def newSketchFor_def refEnv_def boot_def emptyStore_def
        brokenStore_def HLLPP_def refSaveInfo_def Let_def)

text \<open>Create touches the storage on its successful path only.\<close>

lemma CreateSketch_storage_untouched:
  assumes "CreateSketch env s name family props = (r, s')" "r \<noteq> Return None"
  shows "strg s' = strg s"
  using assms
  by (auto simp: CreateSketch_def dumpInfo_def Let_def
           split: option.splits if_splits sum.splits prod.splits ret.splits)

lemma newSketchFor_nonempty: "newSketchFor env t i = Some r \<Longrightarrow> t \<noteq> []"
  by (auto simp: newSketchFor_def HLLPP_def CML_def TopK_def split: if_splits)

lemma CreateSketch_succeeds:
  assumes "map_of (info s) (name @ ''.'' @ family) = None"
      and "int (length (name @ ''.'' @ family)) \<le> MaxKeySize env"
      and "newSketchFor env family
             \<lparr>ID = name @ ''.'' @ family, Type = family, Properties = props, State = []\<rparr> =
           Some (Inr est)"
      and "Marshal env
             \<lparr>ID = name @ ''.'' @ family, Type = family, Properties = props, State = []\<rparr> =
           Inr data"
  shows "fst (CreateSketch env s name family props) = Return None"
  using assms newSketchFor_nonempty[OF assms(3)]
  by (simp add: CreateSketch_def dumpInfo_def Let_def)

text \<open>
  Claim C5, amended. In create the descriptor is persisted only on the path where the
  estimator was constructed and the sketch was inserted into both in-memory maps: with any
  other outcome the storage is untouched, and with the outcome Ok both maps bind the id
  and the storage is what \<^verbatim>\<open>SaveInfo\<close> left. The result of \<^verbatim>\<open>SaveInfo\<close> is not inspected:
  when the id is free and within the bound, the estimator is constructed and the
  descriptor serialises, create returns Ok whatever \<^verbatim>\<open>SaveInfo\<close> returns, and nothing is
  rolled back.
\<close>

theorem create_persists_last_without_rollback:
  assumes "CreateSketch env s name family props = (r, s')"
  shows "(r \<noteq> Return None \<longrightarrow> strg s' = strg s)
       \<and> (r = Return None \<longrightarrow>
            (\<exists>est data a.
               newSketchFor env family
                 \<lparr>ID = name @ ''.'' @ family, Type = family, Properties = props, State = []\<rparr> =
                 Some (Inr est)
             \<and> Marshal env
                 \<lparr>ID = name @ ''.'' @ family, Type = family, Properties = props, State = []\<rparr> =
                 Inr data
             \<and> map_of (sketches s') (name @ ''.'' @ family) =
                 Some (Some \<lparr>GetID = name @ ''.'' @ family, GetType = family, impl = est\<rparr>)
             \<and> map_of (info s') (name @ ''.'' @ family) = Some a
             \<and> heap s' a =
                 \<lparr>ID = name @ ''.'' @ family, Type = family, Properties = props, State = []\<rparr>
             \<and> strg s' = snd (SaveInfo env (name @ ''.'' @ family) data (strg s))))
       \<and> (\<forall>est data.
             map_of (info s) (name @ ''.'' @ family) = None
           \<and> int (length (name @ ''.'' @ family)) \<le> MaxKeySize env
           \<and> newSketchFor env family
                 \<lparr>ID = name @ ''.'' @ family, Type = family, Properties = props, State = []\<rparr> =
                 Some (Inr est)
           \<and> Marshal env
                 \<lparr>ID = name @ ''.'' @ family, Type = family, Properties = props, State = []\<rparr> =
                 Inr data
           \<longrightarrow> r = Return None)"
proof (intro conjI impI allI)
  assume "r \<noteq> Return None"
  with assms show "strg s' = strg s" by (rule CreateSketch_storage_untouched)
next
  assume "r = Return None"
  with assms have c: "CreateSketch env s name family props = (Return None, s')" by simp
  from CreateSketch_success[OF c] obtain est data where
    n: "newSketchFor env family
               \<lparr>ID = name @ ''.'' @ family, Type = family,
                Properties = props, State = []\<rparr> = Some (Inr est)"
    and m: "Marshal env \<lparr>ID = name @ ''.'' @ family, Type = family,
                Properties = props, State = []\<rparr> = Inr data"
    and s': "s' = s\<lparr>heap := (heap s)(nextAddr s :=
                     \<lparr>ID = name @ ''.'' @ family, Type = family,
                      Properties = props, State = []\<rparr>),
                  nextAddr := Suc (nextAddr s),
                  sketches := AList.update (name @ ''.'' @ family)
                     (Some \<lparr>GetID = name @ ''.'' @ family, GetType = family,
                            impl = est\<rparr>) (sketches s),
                  info := AList.update (name @ ''.'' @ family) (nextAddr s) (info s),
                  strg := snd (SaveInfo env (name @ ''.'' @ family) data (strg s))\<rparr>"
    by blast
  have 1: "map_of (sketches s') (name @ ''.'' @ family) =
                 Some (Some \<lparr>GetID = name @ ''.'' @ family, GetType = family, impl = est\<rparr>)"
    by (simp add: s' update_conv')
  have 2: "map_of (info s') (name @ ''.'' @ family) = Some (nextAddr s)"
    by (simp add: s' update_conv')
  have 3: "heap s' (nextAddr s) =
       \<lparr>ID = name @ ''.'' @ family, Type = family, Properties = props, State = []\<rparr>"
    by (simp add: s')
  have 4: "strg s' = snd (SaveInfo env (name @ ''.'' @ family) data (strg s))"
    by (simp add: s')
  from n m 1 2 3 4 show "\<exists>est data a.
               newSketchFor env family
                 \<lparr>ID = name @ ''.'' @ family, Type = family, Properties = props, State = []\<rparr> =
                 Some (Inr est)
             \<and> Marshal env
                 \<lparr>ID = name @ ''.'' @ family, Type = family, Properties = props, State = []\<rparr> =
                 Inr data
             \<and> map_of (sketches s') (name @ ''.'' @ family) =
                 Some (Some \<lparr>GetID = name @ ''.'' @ family, GetType = family, impl = est\<rparr>)
             \<and> map_of (info s') (name @ ''.'' @ family) = Some a
             \<and> heap s' a =
                 \<lparr>ID = name @ ''.'' @ family, Type = family, Properties = props, State = []\<rparr>
             \<and> strg s' = snd (SaveInfo env (name @ ''.'' @ family) data (strg s))"
    by blast
next
  fix est data
  assume a: "map_of (info s) (name @ ''.'' @ family) = None
           \<and> int (length (name @ ''.'' @ family)) \<le> MaxKeySize env
           \<and> newSketchFor env family
                 \<lparr>ID = name @ ''.'' @ family, Type = family, Properties = props, State = []\<rparr> =
                 Some (Inr est)
           \<and> Marshal env
                 \<lparr>ID = name @ ''.'' @ family, Type = family, Properties = props, State = []\<rparr> =
                 Inr data"
  from a have "fst (CreateSketch env s name family props) = Return None"
    by (intro CreateSketch_succeeds) blast+
  with assms show "r = Return None" by simp
qed

text \<open>On a store whose writes fail, create returns Ok and the sketch is registered.\<close>

theorem create_persists_last_without_rollback_witness:
  "CreateSketch refEnv (boot brokenStore) ''marvel'' HLLPP [] =
     (Return None,
      \<lparr>sketches = [(''marvel.cardinality'',
                    Some \<lparr>GetID = ''marvel.cardinality'', GetType = ''cardinality'', impl = []\<rparr>)],
       info = [(''marvel.cardinality'', 0)],
       heap = (\<lambda>a. zeroInfo)(0 := \<lparr>ID = ''marvel.cardinality'', Type = ''cardinality'',
                                    Properties = [], State = []\<rparr>),
       nextAddr = 1, logged = [], strg = brokenStore\<rparr>)
 \<and> strg (snd (CreateSketch refEnv (boot brokenStore) ''marvel'' HLLPP [])) =
     snd (SaveInfo refEnv ''marvel.cardinality''
            \<lparr>ID = ''marvel.cardinality'', Type = ''cardinality'', Properties = [], State = []\<rparr>
            brokenStore)"
proof -
  have run: "CreateSketch refEnv (boot brokenStore) ''marvel'' HLLPP [] =
     (Return None,
      \<lparr>sketches = [(''marvel.cardinality'',
                    Some \<lparr>GetID = ''marvel.cardinality'', GetType = ''cardinality'', impl = []\<rparr>)],
       info = [(''marvel.cardinality'', 0)],
       heap = (\<lambda>a. zeroInfo)(0 := \<lparr>ID = ''marvel.cardinality'', Type = ''cardinality'',
                                    Properties = [], State = []\<rparr>),
       nextAddr = 1, logged = [], strg = brokenStore\<rparr>)"
    by (simp add: CreateSketch_def dumpInfo_def newSketchFor_def refEnv_def boot_def emptyStore_def
        brokenStore_def HLLPP_def refSaveInfo_def Let_def)
  from create_persists_last_without_rollback[OF run] run show ?thesis
    by (simp add: refEnv_def refSaveInfo_def brokenStore_def emptyStore_def HLLPP_def)
qed

subsection \<open>C10: add returns NotFound exactly for an unregistered id\<close>

text \<open>
  What \<^verbatim>\<open>AddToSketch\<close> does on a live estimator: it returns no error, replaces the estimator
  by what \<^verbatim>\<open>AddMultiple\<close> made of it and the storage by what \<^verbatim>\<open>AddMultiple\<close> left, and touches
  nothing else. The catalog has no case of its own for the empty batch: it hands the
  empty list to \<^verbatim>\<open>AddMultiple\<close>, so the add changes nothing exactly when the estimator's
  \<^verbatim>\<open>AddMultiple\<close> of no values changes nothing.
\<close>

lemma AddToSketch_live:
  assumes "map_of (sketches s) (name @ ''.'' @ family) = Some (Some c)"
  shows "AddToSketch env s name family values =
           (Return None,
            s\<lparr>sketches := AList.update (name @ ''.'' @ family)
                             (Some (c\<lparr>impl := fst (AddMultiple env c values (strg s))\<rparr>))
                             (sketches s),
              strg := snd (AddMultiple env c values (strg s))\<rparr>)"
  using assms by (simp add: AddToSketch_def Let_def)

lemma AddToSketch_noop:
  assumes "map_of (sketches s) (name @ ''.'' @ family) = Some (Some c)"
      and "AddMultiple env c values (strg s) = (impl c, strg s)"
  shows "AddToSketch env s name family values = (Return None, s)"
  using AddToSketch_live[OF assms(1), of env "values"] assms(1)
  by (simp add: assms(2) update_triv)

lemma AddToSketch_ok_iff:
  assumes "catalog_ok s"
  shows "fst (AddToSketch env s name family values) = Return None
           \<longleftrightarrow> map_of (sketches s) (name @ ''.'' @ family) \<noteq> None"
proof (cases "map_of (sketches s) (name @ ''.'' @ family)")
  case None
  then show ?thesis by (simp add: AddToSketch_def)
next
  case (Some v)
  from catalog_ok_entry[OF assms Some] obtain c where "v = Some c" by (cases v) auto
  with Some AddToSketch_live[of s name family c env "values"] show ?thesis by simp
qed

text \<open>
  Claim C10. \<^verbatim>\<open>add(name, family, values)\<close> returns the error "no such sketch" (NotFound) if
  and only if the canonical id is not a key of \<^verbatim>\<open>m.sketches\<close>, and then the state is
  unchanged. When the id is bound to an estimator, it returns no error for every list of
  values, the empty list included, and the state afterwards is the old one with that
  estimator and the storage as \<^verbatim>\<open>AddMultiple\<close> left them; an empty batch for which the
  estimator's \<^verbatim>\<open>AddMultiple\<close> is a no-op leaves the whole state as it was. In a well-formed
  catalog the id is a key of \<^verbatim>\<open>m.sketches\<close> if and only if add returns no error.
\<close>

theorem add_not_found_iff:
  "(fst (AddToSketch env s name family values) = Return (Some (NoSuchSketchOfType name family))
      \<longleftrightarrow> map_of (sketches s) (name @ ''.'' @ family) = None)
 \<and> (map_of (sketches s) (name @ ''.'' @ family) = None \<longrightarrow>
       AddToSketch env s name family values =
         (Return (Some (NoSuchSketchOfType name family)), s))
 \<and> (\<forall>c. map_of (sketches s) (name @ ''.'' @ family) = Some (Some c) \<longrightarrow>
        AddToSketch env s name family values =
          (Return None,
           s\<lparr>sketches := AList.update (name @ ''.'' @ family)
                            (Some (c\<lparr>impl := fst (AddMultiple env c values (strg s))\<rparr>))
                            (sketches s),
             strg := snd (AddMultiple env c values (strg s))\<rparr>)
      \<and> fst (AddToSketch env s name family []) = Return None
      \<and> (AddMultiple env c [] (strg s) = (impl c, strg s) \<longrightarrow>
           AddToSketch env s name family [] = (Return None, s)))
 \<and> (catalog_ok s \<longrightarrow>
       (fst (AddToSketch env s name family values) = Return None
          \<longleftrightarrow> map_of (sketches s) (name @ ''.'' @ family) \<noteq> None))"
proof (intro conjI allI impI)
  show "fst (AddToSketch env s name family values) = Return (Some (NoSuchSketchOfType name family))
      \<longleftrightarrow> map_of (sketches s) (name @ ''.'' @ family) = None"
    by (auto simp: AddToSketch_def Let_def split: option.splits)
next
  assume "map_of (sketches s) (name @ ''.'' @ family) = None"
  then show "AddToSketch env s name family values =
         (Return (Some (NoSuchSketchOfType name family)), s)"
    by (simp add: AddToSketch_def)
next
  fix c assume "map_of (sketches s) (name @ ''.'' @ family) = Some (Some c)"
  then show "AddToSketch env s name family values =
          (Return None,
           s\<lparr>sketches := AList.update (name @ ''.'' @ family)
                            (Some (c\<lparr>impl := fst (AddMultiple env c values (strg s))\<rparr>))
                            (sketches s),
             strg := snd (AddMultiple env c values (strg s))\<rparr>)"
    by (rule AddToSketch_live)
next
  fix c assume "map_of (sketches s) (name @ ''.'' @ family) = Some (Some c)"
  from AddToSketch_live[OF this, of env "[]"]
  show "fst (AddToSketch env s name family []) = Return None" by simp
next
  fix c assume "map_of (sketches s) (name @ ''.'' @ family) = Some (Some c)"
     and "AddMultiple env c [] (strg s) = (impl c, strg s)"
  then show "AddToSketch env s name family [] = (Return None, s)"
    by (rule AddToSketch_noop)
next
  assume "catalog_ok s"
  then show "fst (AddToSketch env s name family values) = Return None
          \<longleftrightarrow> map_of (sketches s) (name @ ''.'' @ family) \<noteq> None"
    by (rule AddToSketch_ok_iff)
qed

text \<open>
  Adding no value to a sketch whose data are stored (a no-op: the state is the same
  afterwards), adding one value, and adding to a sketch that does not exist.
\<close>

lemma heroes_ok: "catalog_ok heroesState"
  by (simp add: catalog_ok_def heroesState_def known_tag_def entry_name_def HLLPP_def CML_def
        TopK_def)

theorem add_not_found_iff_witness:
  "catalog_ok heroesState
 \<and> map_of (sketches heroesState) (''marvel'' @ ''.'' @ HLLPP) =
     Some (Some \<lparr>GetID = ''marvel.cardinality'', GetType = ''cardinality'',
                 impl = [''magneto'', ''wasp'', ''beast'']\<rparr>)
 \<and> AddMultiple refEnv
       \<lparr>GetID = ''marvel.cardinality'', GetType = ''cardinality'',
        impl = [''magneto'', ''wasp'', ''beast'']\<rparr> [] (strg heroesState) =
     ([''magneto'', ''wasp'', ''beast''], strg heroesState)
 \<and> AddToSketch refEnv heroesState ''marvel'' HLLPP [] = (Return None, heroesState)
 \<and> fst (AddToSketch refEnv heroesState ''marvel'' HLLPP [''hulk'']) = Return None
 \<and> map_of (sketches (snd (AddToSketch refEnv heroesState ''marvel'' HLLPP [''hulk''])))
       ''marvel.cardinality'' =
     Some (Some \<lparr>GetID = ''marvel.cardinality'', GetType = ''cardinality'',
                 impl = [''magneto'', ''wasp'', ''beast'', ''hulk'']\<rparr>)
 \<and> AddToSketch refEnv heroesState ''hulk'' HLLPP [''hulk''] =
     (Return (Some (NoSuchSketchOfType ''hulk'' ''cardinality'')), heroesState)"
proof -
  let ?c = "\<lparr>GetID = ''marvel.cardinality'', GetType = ''cardinality'',
             impl = [''magneto'', ''wasp'', ''beast'']\<rparr>"
  have reg: "map_of (sketches heroesState) (''marvel'' @ ''.'' @ HLLPP) = Some (Some ?c)"
    by (simp add: heroesState_def HLLPP_def)
  have quiet: "AddMultiple refEnv ?c [] (strg heroesState) = (impl ?c, strg heroesState)"
    by (simp add: refEnv_def refAddMultiple_def heroesState_def heroesStore_def)
  have quiet': "AddMultiple refEnv ?c [] (strg heroesState) =
      ([''magneto'', ''wasp'', ''beast''], strg heroesState)"
    using quiet by simp
  have none: "map_of (sketches heroesState) (''hulk'' @ ''.'' @ HLLPP) = None"
    by (simp add: heroesState_def HLLPP_def)
  have 1: "AddToSketch refEnv heroesState ''marvel'' HLLPP [] = (Return None, heroesState)"
    using add_not_found_iff[of refEnv heroesState "''marvel''" HLLPP "[]"] reg quiet
    by blast
  have 2: "AddToSketch refEnv heroesState ''marvel'' HLLPP [''hulk''] =
      (Return None,
       heroesState\<lparr>sketches := AList.update (''marvel'' @ ''.'' @ HLLPP)
           (Some (?c\<lparr>impl := fst (AddMultiple refEnv ?c [''hulk''] (strg heroesState))\<rparr>))
           (sketches heroesState),
         strg := snd (AddMultiple refEnv ?c [''hulk''] (strg heroesState))\<rparr>)"
    using add_not_found_iff[of refEnv heroesState "''marvel''" HLLPP "[''hulk'']"] reg
    by blast
  have 3: "AddToSketch refEnv heroesState ''hulk'' HLLPP [''hulk''] =
     (Return (Some (NoSuchSketchOfType ''hulk'' HLLPP)), heroesState)"
    using add_not_found_iff[of refEnv heroesState "''hulk''" HLLPP "[''hulk'']"] none
    by blast
  have ok2: "fst (AddToSketch refEnv heroesState ''marvel'' HLLPP [''hulk'']) = Return None"
    unfolding 2 by simp
  have reg2: "map_of (sketches (snd (AddToSketch refEnv heroesState ''marvel'' HLLPP [''hulk''])))
       ''marvel.cardinality'' =
     Some (Some \<lparr>GetID = ''marvel.cardinality'', GetType = ''cardinality'',
                 impl = [''magneto'', ''wasp'', ''beast'', ''hulk'']\<rparr>)"
    unfolding 2 by (simp add: update_conv' HLLPP_def refEnv_def refAddMultiple_def)
  from heroes_ok reg quiet' 1 ok2 reg2 3 show ?thesis by (simp add: HLLPP_def)
qed

end
